theory Spec2Isabelle
  imports Main "HOL-Library.Word" "HOL-Library.Signed_Division"
begin

section \<open>Data model\<close>

text \<open>
  Modelled from the spec: the declaration of \<open>lib.StatusKind\<close> is in a file of package
  \<open>lib\<close> that is not among the sources. The specification gives "Status: one of
  {Unknown, Online, Offline, Denied, NotFound}"; \<open>cmd/bot/main.go\<close> and the checkers use
  these five names and \<open>StatusExists\<close>. Only the distinctness of the six is used.
\<close>

datatype StatusKind =
  StatusUnknown | StatusOffline | StatusOnline | StatusNotFound | StatusDenied | StatusExists

text \<open>
  \<open>lib.StatusUpdate\<close>, with the two fields that \<open>StartStripchatAPIChecker\<close> fills in
  \<open>StatusUpdate{ModelID: modelID, Status: newStatus}\<close> and \<open>processStatusUpdate\<close> reads.
\<close>

record StatusUpdate =
  ModelID :: string
  Status :: StatusKind

text \<open>
  The two tables of \<open>createDatabase\<close> that the status engine reads and writes.
  \<open>signals\<close> has one row per subscription; \<open>statuses\<close> has \<open>model_id\<close> as its primary
  key, so it is a map from the model to the rest of the row. \<open>last_online\<close> holds a Go
  \<open>int\<close> (64 bits), on which \<open>updateStatus\<close> subtracts: it is a 64-bit word and the
  comparison on it is the signed one. \<open>not_found\<close> is only ever incremented by SQL and
  compared, so it is an integer.
\<close>

record signal_row =
  chat_id :: int
  model_id :: string
  endpoint :: string

record status_row =
  status :: StatusKind
  not_found :: int
  last_online :: "64 word"

record database =
  signals :: "signal_row list"
  statuses :: "string \<rightharpoonup> status_row"

text \<open>The fields of \<open>w.cfg\<close> that the status engine and the health monitor read.\<close>

record config =
  OfflineNotifications :: bool
  OfflineThresholdSeconds :: "64 word"
  NotFoundThreshold :: int
  errorThreshold :: int
  errorDenominator :: int
  ErrorReportingPeriodMinutes :: int

section \<open>Status transition engine (\<open>cmd/bot/main.go\<close>)\<close>

text \<open>\<open>select count(*) from signals where model_id=?\<close>\<close>

definition signalsCount :: "database \<Rightarrow> string \<Rightarrow> nat" where
  "signalsCount d modelID = length (filter (\<lambda>r. model_id r = modelID) (signals d))"

text \<open>\<open>update statuses set not_found=0 where model_id=?\<close>\<close>

definition resetNotFound :: "database \<Rightarrow> string \<Rightarrow> database" where
  "resetNotFound d modelID =
     (case statuses d modelID of
        None \<Rightarrow> d
      | Some r \<Rightarrow> d\<lparr>statuses := (statuses d)(modelID \<mapsto> r\<lparr>not_found := 0\<rparr>)\<rparr>)"

text \<open>
  \<open>worker.updateStatus\<close>. The result is the database after the call and the returned
  \<open>notify\<close>. The inserted row takes the column default \<open>not_found = 0\<close>.
\<close>

definition updateStatus ::
  "config \<Rightarrow> database \<Rightarrow> string \<Rightarrow> StatusKind \<Rightarrow> 64 word \<Rightarrow> database \<times> bool" where
  "updateStatus cfg d0 modelID newStatus0 timestamp =
     (let d = (if newStatus0 \<noteq> StatusNotFound then resetNotFound d0 modelID else d0);
          newStatus = (if newStatus0 \<noteq> StatusNotFound then newStatus0 else StatusOffline)
      in if signalsCount d modelID = 0 then (d, False)
         else
           (case statuses d modelID of
              None \<Rightarrow>
                (let lastOnline = (if newStatus = StatusOnline then timestamp else 0)
                 in (d\<lparr>statuses := (statuses d)(modelID \<mapsto>
                         \<lparr>status = newStatus, not_found = 0, last_online = lastOnline\<rparr>)\<rparr>,
                     True))
            | Some r \<Rightarrow>
                (let oldStatus = status r;
                     lastOnline = last_online r;
                     changeOK = (OfflineNotifications cfg
                                 \<or> (oldStatus \<noteq> StatusOnline \<and> newStatus = StatusOnline));
                     durationOK = (OfflineNotifications cfg
                                   \<or> OfflineThresholdSeconds cfg \<le>s timestamp - lastOnline);
                     notify = (oldStatus \<noteq> newStatus \<and> changeOK \<and> durationOK);
                     lastOnline' = (if newStatus = StatusOnline then timestamp else lastOnline)
                 in (d\<lparr>statuses := (statuses d)(modelID \<mapsto>
                         r\<lparr>status := newStatus, last_online := lastOnline'\<rparr>)\<rparr>,
                     notify))))"

text \<open>
  \<open>worker.notFound\<close>: the streak is incremented in the table and compared with the
  threshold; a model without a row in \<open>statuses\<close> is left alone.
\<close>

definition notFound :: "config \<Rightarrow> database \<Rightarrow> string \<Rightarrow> database \<times> bool" where
  "notFound cfg d modelID =
     (case statuses d modelID of
        None \<Rightarrow> (d, False)
      | Some r \<Rightarrow>
          (d\<lparr>statuses := (statuses d)(modelID \<mapsto> r\<lparr>not_found := not_found r + 1\<rparr>)\<rparr>,
           not_found r + 1 > NotFoundThreshold cfg))"

text \<open>
  \<open>worker.cleanStatuses\<close>:
  \<open>delete from statuses where not exists(select * from signals where
  signals.model_id=statuses.model_id)\<close>
\<close>

definition cleanStatuses :: "database \<Rightarrow> database" where
  "cleanStatuses d =
     d\<lparr>statuses := (\<lambda>m. if m \<in> model_id ` set (signals d) then statuses d m else None)\<rparr>"

text \<open>\<open>worker.removeNotFound\<close>: \<open>delete from signals where model_id=?\<close>, then \<open>cleanStatuses\<close>.\<close>

definition removeNotFound :: "database \<Rightarrow> string \<Rightarrow> database" where
  "removeNotFound d modelID =
     cleanStatuses (d\<lparr>signals := filter (\<lambda>r. model_id r \<noteq> modelID) (signals d)\<rparr>)"

text \<open>
  What \<open>processStatusUpdate\<close> and \<open>processPeriodic\<close> hand to the message-sending side:
  \<open>reportNotFound(modelID)\<close>, the loop of \<open>reportStatus\<close> over \<open>chatsForModel(modelID)\<close>
  (one entry for the loop; the chats and the delivery are the sender's concern), and the
  message to the administrator with the two numbers it prints.
\<close>

datatype action =
  ReportNotFound string
  | ReportStatus string StatusKind
  | ErrorRateReport int int

text \<open>The two run-time panics of \<open>processStatusUpdate\<close>.\<close>

datatype panic = IndexOutOfRange | DivideByZero

text \<open>
  The fields of \<open>worker\<close> that the engine changes. \<open>nextErrorReport\<close> is a \<open>time.Time\<close>,
  taken as an instant in nanoseconds.
\<close>

record worker =
  db :: database
  unknowns :: "bool list"
  unknownsPos :: int
  nextErrorReport :: int

text \<open>
  \<open>worker.processStatusUpdate\<close>. The indexed store \<open>w.unknowns[w.unknownsPos] = ...\<close>
  panics out of range, and \<open>%\<close> panics on a zero divisor; Go's \<open>%\<close> truncates, which is
  \<open>smod\<close>. Both come after the work on the database and after the reports, so a panic
  carries the database and the reports made before it.
\<close>

type_synonym outcome = "(panic \<times> database \<times> action list) + (worker \<times> action list)"

definition processStatusUpdate ::
  "config \<Rightarrow> worker \<Rightarrow> StatusUpdate \<Rightarrow> 64 word \<Rightarrow> outcome" where
  "processStatusUpdate cfg w statusUpdate timestamp =
     (let (d1, acts1) =
            (if Status statusUpdate = StatusNotFound then
               (let (d, gone) = notFound cfg (db w) (ModelID statusUpdate)
                in if gone
                   then (removeNotFound d (ModelID statusUpdate),
                         [ReportNotFound (ModelID statusUpdate)])
                   else (d, []))
             else (db w, []));
          (d2, acts2) =
            (if Status statusUpdate \<noteq> StatusUnknown then
               (let (d, notify) =
                      updateStatus cfg d1 (ModelID statusUpdate) (Status statusUpdate) timestamp
                in (d, if notify
                       then [ReportStatus (ModelID statusUpdate) (Status statusUpdate)]
                       else []))
             else (d1, []))
      in if unknownsPos w < 0 \<or> int (length (unknowns w)) \<le> unknownsPos w
         then Inl (IndexOutOfRange, d2, acts1 @ acts2)
         else if errorDenominator cfg = 0 then Inl (DivideByZero, d2, acts1 @ acts2)
         else Inr (w\<lparr>db := d2,
                      unknowns := (unknowns w)[nat (unknownsPos w) :=
                                     (Status statusUpdate = StatusUnknown)],
                      unknownsPos := (unknownsPos w + 1) smod errorDenominator cfg\<rparr>,
                   acts1 @ acts2))"

text \<open>The database and the reports of an outcome, panic or not.\<close>

definition dbOf :: "outcome \<Rightarrow> database" where
  "dbOf r = (case r of Inl (p, d, acts) \<Rightarrow> d | Inr (w, acts) \<Rightarrow> db w)"

definition actionsOf :: "outcome \<Rightarrow> action list" where
  "actionsOf r = (case r of Inl (p, d, acts) \<Rightarrow> acts | Inr (w, acts) \<Rightarrow> acts)"

section \<open>Health monitor (\<open>cmd/bot/main.go\<close>)\<close>

text \<open>\<open>worker.unknownsNumber\<close>: the loop that counts the \<open>true\<close> entries.\<close>

fun countTrue :: "bool list \<Rightarrow> int \<Rightarrow> int" where
  "countTrue [] unknownsCount = unknownsCount"
| "countTrue (s # rest) unknownsCount =
     countTrue rest (if s then unknownsCount + 1 else unknownsCount)"

definition unknownsNumber :: "worker \<Rightarrow> int" where
  "unknownsNumber w = countTrue (unknowns w) 0"

text \<open>
  \<open>time.Minute * time.Duration(w.cfg.ErrorReportingPeriodMinutes)\<close>: a product of two
  \<open>int64\<close>, in nanoseconds, wrapping.
\<close>

definition reportingPeriod :: "config \<Rightarrow> int" where
  "reportingPeriod cfg =
     sint (word_of_int 60000000000 * word_of_int (ErrorReportingPeriodMinutes cfg) :: 64 word)"

text \<open>
  \<open>worker.processPeriodic\<close>, its first statement: the error-rate report. \<open>now\<close> is the value
  of \<open>time.Now()\<close>; \<open>Before\<close> is strict. The \<open>select\<close> that follows sends the list of
  models to the checker without blocking and changes none of the fields modelled here.
\<close>

definition processPeriodic :: "config \<Rightarrow> worker \<Rightarrow> int \<Rightarrow> worker \<times> action list" where
  "processPeriodic cfg w now =
     (let unknownsNumber = unknownsNumber w
      in if nextErrorReport w < now \<and> unknownsNumber > errorThreshold cfg
         then (w\<lparr>nextErrorReport := now + reportingPeriod cfg\<rparr>,
               [ErrorRateReport unknownsNumber (errorDenominator cfg)])
         else (w, []))"

section \<open>The loop of \<open>main\<close>\<close>

text \<open>
  The \<open>for { select { ... } }\<close> of \<open>main\<close>, for the two cases that reach the status
  engine and the health monitor: a tick of \<open>periodicTimer\<close>, with the \<open>time.Now()\<close> that
  \<open>processPeriodic\<close> reads, and a status update, with its timestamp. A panic ends the
  loop.
\<close>

datatype event =
  PeriodicTick int
  | StatusUpdateEvent StatusUpdate "64 word"

fun mainLoop :: "config \<Rightarrow> worker \<Rightarrow> event list \<Rightarrow> outcome" where
  "mainLoop cfg w [] = Inr (w, [])"
| "mainLoop cfg w (PeriodicTick now # rest) =
     (let (w', acts) = processPeriodic cfg w now
      in (case mainLoop cfg w' rest of
            Inl (p, d, acts') \<Rightarrow> Inl (p, d, acts @ acts')
          | Inr (w'', acts') \<Rightarrow> Inr (w'', acts @ acts')))"
| "mainLoop cfg w (StatusUpdateEvent statusUpdate timestamp # rest) =
     (case processStatusUpdate cfg w statusUpdate timestamp of
        Inl (p, d, acts) \<Rightarrow> Inl (p, d, acts)
      | Inr (w', acts) \<Rightarrow>
          (case mainLoop cfg w' rest of
             Inl (p, d, acts') \<Rightarrow> Inl (p, d, acts @ acts')
           | Inr (w'', acts') \<Rightarrow> Inr (w'', acts @ acts')))"

section \<open>Canonical identifiers (\<open>strings.ToLower\<close>, \<open>Cam4CanonicalModelID\<close>)\<close>

text \<open>
  Strings are byte lists. \<open>strings.ToLower\<close> on the ASCII range: the letters \<open>A\<close> to \<open>Z\<close>
  (65 to 90) move to \<open>a\<close> to \<open>z\<close>, every other byte stays. (Go also maps upper-case
  letters outside ASCII; the identifiers of the checkers are ASCII.)
\<close>

definition lowerChar :: "char \<Rightarrow> char" where
  "lowerChar c =
     (if 65 \<le> (of_char c :: nat) \<and> (of_char c :: nat) \<le> 90
      then char_of ((of_char c :: nat) + 32) else c)"

definition ToLower :: "string \<Rightarrow> string" where
  "ToLower s = map lowerChar s"

text \<open>The character class \<open>[A-Za-z0-9_]\<close> of \<open>cam4ModelRegex\<close>.\<close>

definition wordChar :: "char \<Rightarrow> bool" where
  "wordChar c =
     (let n = (of_char c :: nat)
      in (65 \<le> n \<and> n \<le> 90) \<or> (97 \<le> n \<and> n \<le> 122) \<or> (48 \<le> n \<and> n \<le> 57) \<or> n = 95)"

text \<open>
  \<open>cam4ModelRegex.FindStringSubmatch\<close> for
  \<open>^(?:https?://)?cam4\.com/([A-Za-z0-9_]+)(?:[/?].*)?$\<close>: the whole match and the
  group, or the empty slice. The pattern is anchored at both ends and has no choice
  left once the scheme is read: the scheme is optional, the host is literal, the group
  is the longest run of class characters (the character after it must be \<open>/\<close>, \<open>?\<close> or
  the end, none of which is in the class), and \<open>.\<close> matches every character but the
  line feed.
\<close>

definition cam4ModelRegex :: "string \<Rightarrow> string list" where
  "cam4ModelRegex name =
     (let s = (if take 8 name = ''https://'' then drop 8 name
               else if take 7 name = ''http://'' then drop 7 name
               else name)
      in if take 9 s \<noteq> ''cam4.com/'' then []
         else
           (let t = drop 9 s;
                ident = takeWhile wordChar t;
                rest = dropWhile wordChar t
            in if ident = [] then []
               else (case rest of
                       [] \<Rightarrow> [name, ident]
                     | c # tail \<Rightarrow>
                         if (c = CHR ''/'' \<or> c = CHR ''?'') \<and> CHR 0x0A \<notin> set tail
                         then [name, ident] else [])))"

text \<open>\<open>Cam4CanonicalModelID\<close>\<close>

definition Cam4CanonicalModelID :: "string \<Rightarrow> string" where
  "Cam4CanonicalModelID name =
     (let m = cam4ModelRegex name
      in ToLower (if length m = 2 then m ! 1 else name))"

section \<open>Roster checkers (\<open>lib\<close>)\<close>

text \<open>
  What a checker gets from \<open>onlineQuery\<close> (a function of package \<open>lib\<close> whose body is
  not among the sources; its result is an input here) and from the JSON decoder: the
  query failed (\<open>err != nil\<close>), or there is a response with its status code and the
  value decoded from its body, \<open>None\<close> when \<open>Decode\<close> returns an error.
\<close>

datatype 'a query_result =
  QueryError
  | QueryResponse int "'a option"

text \<open>The errors that the \<open>checkEndpoint\<close> functions build.\<close>

datatype check_error =
  CannotSendQuery
  | QueryStatus int
  | CannotParseResponse
  | ZeroOnlineModels

record bongacamsModel =
  Username :: string
  ThumbnailImageMediumLive :: string

record cam4Model =
  Nickname :: string
  ThumbBig :: string

text \<open>
  \<open>BongaCamsChecker.checkEndpoint\<close>, after \<open>nextClient\<close> and \<open>onlineQuery\<close>. The two
  \<open>nil\<close> maps returned with an error are the empty maps.
\<close>

definition BongaCams_checkEndpoint ::
  "bongacamsModel list query_result
   \<Rightarrow> check_error + ((string \<rightharpoonup> StatusKind) \<times> (string \<rightharpoonup> string))" where
  "BongaCams_checkEndpoint q =
     (case q of
        QueryError \<Rightarrow> Inl CannotSendQuery
      | QueryResponse code decoded \<Rightarrow>
          if code \<noteq> 200 then Inl (QueryStatus code)
          else (case decoded of
                  None \<Rightarrow> Inl CannotParseResponse
                | Some parsed \<Rightarrow>
                    if length parsed = 0 then Inl ZeroOnlineModels
                    else Inr (fold (\<lambda>m (onlineModels, images).
                                      (let modelID = ToLower (Username m)
                                       in (onlineModels(modelID \<mapsto> StatusOnline),
                                           images(modelID \<mapsto>
                                             ''https:'' @ ThumbnailImageMediumLive m))))
                                parsed (Map.empty, Map.empty))))"

text \<open>\<open>Cam4Checker.checkEndpoint\<close>, after \<open>nextClient\<close> and \<open>onlineQuery\<close>.\<close>

definition Cam4_checkEndpoint ::
  "cam4Model list query_result
   \<Rightarrow> check_error + ((string \<rightharpoonup> StatusKind) \<times> (string \<rightharpoonup> string))" where
  "Cam4_checkEndpoint q =
     (case q of
        QueryError \<Rightarrow> Inl CannotSendQuery
      | QueryResponse code decoded \<Rightarrow>
          if code \<noteq> 200 then Inl (QueryStatus code)
          else (case decoded of
                  None \<Rightarrow> Inl CannotParseResponse
                | Some parsed \<Rightarrow>
                    Inr (fold (\<lambda>m (onlineModels, images).
                                 (let modelID = ToLower (Nickname m)
                                  in (onlineModels(modelID \<mapsto> StatusOnline),
                                      images(modelID \<mapsto> ThumbBig m))))
                           parsed (Map.empty, Map.empty))))"

text \<open>
  Modelled from the spec: \<open>sendUnknowns\<close>, a function of package \<open>lib\<close> that
  \<open>StartStripchatAPIChecker\<close> calls on each failure and whose body is not among the
  sources. The
  specification says of a failed round: "Emits, for each entity, one CheckResult" and
  "on failure, every entity's result is Unknown".
\<close>

definition sendUnknowns :: "string list \<Rightarrow> StatusUpdate list" where
  "sendUnknowns models = map (\<lambda>modelID. \<lparr>ModelID = modelID, Status = StatusUnknown\<rparr>) models"

text \<open>What the checker's goroutine sends, in order, on \<open>elapsedCh\<close> and on \<open>output\<close>.\<close>

datatype sent =
  Elapsed int
  | Update StatusUpdate

text \<open>
  One iteration of the loop \<open>for models := range input\<close> of
  \<open>StartStripchatAPIChecker\<close>. \<open>onlineQuery client\<close> is the query made with the chosen
  client: its result, with the \<open>Models\<close> of the decoded \<open>stripchatResponse\<close> as user
  names, and the elapsed time. \<open>clients[clientIdx]\<close> panics out of range. The result is
  the next \<open>clientIdx\<close> and what was sent.
\<close>

definition StripchatAPIChecker_round ::
  "'c list \<Rightarrow> nat \<Rightarrow> ('c \<Rightarrow> string list query_result \<times> int) \<Rightarrow> string list
   \<Rightarrow> panic + (nat \<times> sent list)" where
  "StripchatAPIChecker_round clients clientIdx onlineQuery models =
     (if length clients \<le> clientIdx then Inl IndexOutOfRange
      else
        (let client = clients ! clientIdx;
             clientIdx' = (if clientIdx + 1 = length clients then 0 else clientIdx + 1);
             (q, elapsed) = onlineQuery client
         in Inr (clientIdx',
                 Elapsed elapsed #
                 map Update
                   (case q of
                      QueryError \<Rightarrow> sendUnknowns models
                    | QueryResponse code decoded \<Rightarrow>
                        if code \<noteq> 200 then sendUnknowns models
                        else (case decoded of
                                None \<Rightarrow> sendUnknowns models
                              | Some parsed \<Rightarrow>
                                  (let hash = fold (\<lambda>m h. h(ToLower m := True)) parsed
                                                (\<lambda>_. False)
                                   in map (\<lambda>modelID.
                                             \<lparr>ModelID = modelID,
                                              Status = (if hash modelID then StatusOnline
                                                        else StatusOffline)\<rparr>)
                                          models))))))"

section \<open>Example data\<close>

text \<open>
  A configuration with offline notifications disabled, one subscription to the model
  \<open>alice\<close>, and databases and workers in which \<open>alice\<close> has a given status record.
\<close>

abbreviation cfgQuiet :: config where
  "cfgQuiet \<equiv> \<lparr>OfflineNotifications = False, OfflineThresholdSeconds = 300,
                NotFoundThreshold = 2, errorThreshold = 5, errorDenominator = 10,
                ErrorReportingPeriodMinutes = 1\<rparr>"

abbreviation aliceRow :: signal_row where
  "aliceRow \<equiv> \<lparr>chat_id = 1, model_id = ''alice'', endpoint = ''main''\<rparr>"

abbreviation aliceDb :: "StatusKind \<Rightarrow> int \<Rightarrow> 64 word \<Rightarrow> database" where
  "aliceDb st nf lo \<equiv>
     \<lparr>signals = [aliceRow],
      statuses = [''alice'' \<mapsto> \<lparr>status = st, not_found = nf, last_online = lo\<rparr>]\<rparr>"

abbreviation aliceWorker :: "StatusKind \<Rightarrow> int \<Rightarrow> 64 word \<Rightarrow> worker" where
  "aliceWorker st nf lo \<equiv>
     \<lparr>db = aliceDb st nf lo, unknowns = replicate 10 False, unknownsPos = 0,
      nextErrorReport = 0\<rparr>"

section \<open>Lemmas on the status engine\<close>

lemma signalsCount_resetNotFound [simp]:
  "signalsCount (resetNotFound d m) m' = signalsCount d m'"
  by (simp add: resetNotFound_def signalsCount_def split: option.split)

lemma dom_resetNotFound [simp]: "dom (statuses (resetNotFound d m)) = dom (statuses d)"
  by (auto simp: resetNotFound_def split: option.splits)

lemma signals_resetNotFound [simp]: "signals (resetNotFound d m) = signals d"
  by (simp add: resetNotFound_def split: option.split)

lemma statuses_resetNotFound:
  "statuses (resetNotFound d m) m' =
     (if m' = m then map_option (\<lambda>r. r\<lparr>not_found := 0\<rparr>) (statuses d m) else statuses d m')"
  by (simp add: resetNotFound_def split: option.split)

lemma signalsCount_statuses_update [simp]:
  "signalsCount (d\<lparr>statuses := x\<rparr>) m = signalsCount d m"
  by (simp add: signalsCount_def)

lemma updateStatus_existing:
  assumes "signalsCount d m \<noteq> 0" "statuses d m = Some r" "st \<noteq> StatusNotFound"
  shows "updateStatus cfg d m st ts =
           (d\<lparr>statuses := (statuses d)(m \<mapsto>
               r\<lparr>not_found := 0, status := st,
                 last_online := (if st = StatusOnline then ts else last_online r)\<rparr>)\<rparr>,
            status r \<noteq> st
            \<and> (OfflineNotifications cfg \<or> (status r \<noteq> StatusOnline \<and> st = StatusOnline))
            \<and> (OfflineNotifications cfg \<or> OfflineThresholdSeconds cfg \<le>s ts - last_online r))"
  using assms
  by (simp add: updateStatus_def Let_def statuses_resetNotFound resetNotFound_def)

lemma updateStatus_missing:
  assumes "signalsCount d m \<noteq> 0" "statuses d m = None"
  shows "updateStatus cfg d m st ts =
           (d\<lparr>statuses := (statuses d)(m \<mapsto>
               \<lparr>status = (if st = StatusNotFound then StatusOffline else st), not_found = 0,
                last_online = (if st = StatusOnline then ts else 0)\<rparr>)\<rparr>,
            True)"
  using assms
  by (auto simp add: updateStatus_def Let_def statuses_resetNotFound resetNotFound_def)

lemma updateStatus_existing_NotFound:
  assumes "signalsCount d m \<noteq> 0" "statuses d m = Some r"
  shows "updateStatus cfg d m StatusNotFound ts =
           (d\<lparr>statuses := (statuses d)(m \<mapsto> r\<lparr>status := StatusOffline\<rparr>)\<rparr>,
            status r \<noteq> StatusOffline \<and> OfflineNotifications cfg)"
  using assms
  by (auto simp add: updateStatus_def Let_def)

lemma updateStatus_nosignals:
  assumes "signalsCount d m = 0"
  shows "updateStatus cfg d m st ts =
           ((if st \<noteq> StatusNotFound then resetNotFound d m else d), False)"
  using assms
  by (auto simp add: updateStatus_def Let_def)

lemma signals_updateStatus: "signals (fst (updateStatus cfg d m st ts)) = signals d"
  by (simp add: updateStatus_def Let_def split: option.split)

lemma statuses_updateStatus_other:
  "m' \<noteq> m \<Longrightarrow> statuses (fst (updateStatus cfg d m st ts)) m' = statuses d m'"
  by (simp add: updateStatus_def Let_def statuses_resetNotFound split: option.split)

lemma notFound_missing: "statuses d m = None \<Longrightarrow> notFound cfg d m = (d, False)"
  by (simp add: notFound_def)

lemma notFound_existing:
  "statuses d m = Some r \<Longrightarrow>
   notFound cfg d m =
     (d\<lparr>statuses := (statuses d)(m \<mapsto> r\<lparr>not_found := not_found r + 1\<rparr>)\<rparr>,
      NotFoundThreshold cfg < not_found r + 1)"
  by (simp add: notFound_def)

lemma signals_notFound: "signals (fst (notFound cfg d m)) = signals d"
  by (simp add: notFound_def split: option.split)

lemma statuses_notFound_other:
  "m' \<noteq> m \<Longrightarrow> statuses (fst (notFound cfg d m)) m' = statuses d m'"
  by (simp add: notFound_def split: option.split)

lemma signals_removeNotFound:
  "signals (removeNotFound d m) = filter (\<lambda>r. model_id r \<noteq> m) (signals d)"
  by (simp add: removeNotFound_def cleanStatuses_def)

lemma statuses_removeNotFound:
  "statuses (removeNotFound d m) m' =
     (if m' \<noteq> m \<and> signalsCount d m' \<noteq> 0 then statuses d m' else None)"
  by (auto simp: removeNotFound_def cleanStatuses_def signalsCount_def filter_empty_conv)

lemma signalsCount_removeNotFound:
  "signalsCount (removeNotFound d m) m' = (if m' = m then 0 else signalsCount d m')"
proof -
  have "filter (\<lambda>r. model_id r = m') (filter (\<lambda>r. model_id r \<noteq> m) (signals d)) =
        (if m' = m then [] else filter (\<lambda>r. model_id r = m') (signals d))"
    by (induction "signals d" arbitrary: d) (auto intro: filter_cong)
  then show ?thesis by (simp add: signalsCount_def signals_removeNotFound)
qed

lemma signalsCount_cong: "signals d' = signals d \<Longrightarrow> signalsCount d' m = signalsCount d m"
  by (simp add: signalsCount_def)

lemma dbOf_processStatusUpdate:
  "dbOf (processStatusUpdate cfg w upd ts) =
     (let m = ModelID upd; st = Status upd;
          d1 = (if st = StatusNotFound
                then (if snd (notFound cfg (db w) m)
                      then removeNotFound (fst (notFound cfg (db w) m)) m
                      else fst (notFound cfg (db w) m))
                else db w)
      in if st \<noteq> StatusUnknown then fst (updateStatus cfg d1 m st ts) else d1)"
  by (simp add: processStatusUpdate_def dbOf_def Let_def split: prod.split)

lemma actionsOf_processStatusUpdate:
  "actionsOf (processStatusUpdate cfg w upd ts) =
     (let m = ModelID upd; st = Status upd;
          gone = (st = StatusNotFound \<and> snd (notFound cfg (db w) m));
          d1 = (if st = StatusNotFound
                then (if gone then removeNotFound (fst (notFound cfg (db w) m)) m
                      else fst (notFound cfg (db w) m))
                else db w)
      in (if gone then [ReportNotFound m] else [])
         @ (if st \<noteq> StatusUnknown \<and> snd (updateStatus cfg d1 m st ts)
            then [ReportStatus m st] else []))"
  by (simp add: processStatusUpdate_def actionsOf_def Let_def split: prod.split)


lemma processStatusUpdate_unwatched_step:
  assumes "signalsCount (db w) m = 0" "statuses (db w) m = None"
  shows "signalsCount (dbOf (processStatusUpdate cfg w upd ts)) m = 0
         \<and> statuses (dbOf (processStatusUpdate cfg w upd ts)) m = None
         \<and> ReportNotFound m \<notin> set (actionsOf (processStatusUpdate cfg w upd ts))"
proof (cases "ModelID upd = m")
  case True
  have nf: "notFound cfg (db w) m = (db w, False)"
    using assms(2) by (rule notFound_missing)
  have rs: "resetNotFound (db w) m = db w"
    using assms(2) by (simp add: resetNotFound_def)
  show ?thesis
    using assms True
    by (simp add: dbOf_processStatusUpdate actionsOf_processStatusUpdate Let_def nf
        updateStatus_nosignals rs)
next
  case False
  define m' where "m' = ModelID upd"
  have ne: "m \<noteq> m'" using False by (simp add: m'_def)
  define d1 where "d1 = (if Status upd = StatusNotFound
                then (if snd (notFound cfg (db w) m')
                      then removeNotFound (fst (notFound cfg (db w) m')) m'
                      else fst (notFound cfg (db w) m'))
                else db w)"
  have c1: "signalsCount d1 m = 0"
    using assms(1) ne
    by (simp add: d1_def signalsCount_removeNotFound signalsCount_cong [OF signals_notFound])
  have s1: "statuses d1 m = None"
    using assms(2) ne
    by (simp add: d1_def statuses_removeNotFound statuses_notFound_other)
  have "signalsCount (fst (updateStatus cfg d1 m' (Status upd) ts)) m = 0"
    using c1 by (simp add: signalsCount_cong [OF signals_updateStatus])
  moreover have "statuses (fst (updateStatus cfg d1 m' (Status upd) ts)) m = None"
    using s1 ne by (simp add: statuses_updateStatus_other)
  ultimately show ?thesis
    using c1 s1 ne assms
    by (simp add: dbOf_processStatusUpdate actionsOf_processStatusUpdate Let_def
        m'_def [symmetric] d1_def [symmetric] del: mainLoop.simps)
qed

lemma processPeriodic_db: "db (fst (processPeriodic cfg w now)) = db w"
  by (simp add: processPeriodic_def Let_def)

lemma processPeriodic_actions:
  "ReportNotFound m \<notin> set (snd (processPeriodic cfg w now))"
  by (simp add: processPeriodic_def Let_def)

lemma actionsOf_mainLoop_tick:
  "actionsOf (mainLoop cfg w (PeriodicTick now # rest)) =
     snd (processPeriodic cfg w now)
     @ actionsOf (mainLoop cfg (fst (processPeriodic cfg w now)) rest)"
  by (simp add: actionsOf_def split: prod.split sum.split)

lemma actionsOf_mainLoop_update:
  "actionsOf (mainLoop cfg w (StatusUpdateEvent upd ts # rest)) =
     (case processStatusUpdate cfg w upd ts of
        Inl x \<Rightarrow> actionsOf (processStatusUpdate cfg w upd ts)
      | Inr (w', acts) \<Rightarrow> acts @ actionsOf (mainLoop cfg w' rest))"
  by (simp add: actionsOf_def split: prod.split sum.split)

lemma mainLoop_unwatched:
  assumes "signalsCount (db w) m = 0" "statuses (db w) m = None"
  shows "ReportNotFound m \<notin> set (actionsOf (mainLoop cfg w events))"
  using assms
proof (induction events arbitrary: w)
  case Nil
  then show ?case by (simp add: actionsOf_def)
next
  case (Cons e events)
  show ?case
  proof (cases e)
    case (PeriodicTick now)
    have "ReportNotFound m \<notin> set (actionsOf (mainLoop cfg (fst (processPeriodic cfg w now)) events))"
      using Cons.prems by (intro Cons.IH) (simp_all add: processPeriodic_db signalsCount_def)
    then show ?thesis
      unfolding PeriodicTick actionsOf_mainLoop_tick
      by (simp add: processPeriodic_actions)
  next
    case (StatusUpdateEvent upd ts)
    note step = processStatusUpdate_unwatched_step [OF Cons.prems, of cfg upd ts]
    show ?thesis
    proof (cases "processStatusUpdate cfg w upd ts")
      case (Inl x)
      then show ?thesis
        unfolding StatusUpdateEvent actionsOf_mainLoop_update
        using step by simp
    next
      case (Inr y)
      obtain w' acts where y: "y = (w', acts)" by (cases y)
      have "signalsCount (db w') m = 0" "statuses (db w') m = None" "ReportNotFound m \<notin> set acts"
        using step by (simp_all add: Inr y dbOf_def actionsOf_def)
      then show ?thesis
        unfolding StatusUpdateEvent actionsOf_mainLoop_update
        using Cons.IH [of w'] by (simp add: Inr y)
    qed
  qed
qed

lemma updateStatus_last_online:
  assumes "statuses (fst (updateStatus cfg d m0 st ts)) m = Some r'"
  shows "last_online r' =
           (case statuses d m of
              Some r \<Rightarrow> if m = m0 \<and> st = StatusOnline \<and> signalsCount d m \<noteq> 0
                        then ts else last_online r
            | None \<Rightarrow> if st = StatusOnline then ts else 0)"
proof (cases "m = m0")
  case False
  then show ?thesis using assms by (simp add: statuses_updateStatus_other)
next
  case True
  show ?thesis
  proof (cases "signalsCount d m0 = 0")
    case True
    then show ?thesis
      using assms \<open>m = m0\<close>
      by (auto simp: updateStatus_nosignals statuses_resetNotFound split: if_splits)
  next
    case False
    show ?thesis
    proof (cases "statuses d m0")
      case None
      then show ?thesis
        using assms \<open>m = m0\<close> False by (auto simp: updateStatus_missing)
    next
      case (Some r)
      then show ?thesis
        using assms \<open>m = m0\<close> False
        by (cases "st = StatusNotFound")
          (auto simp: updateStatus_existing updateStatus_existing_NotFound)
    qed
  qed
qed

lemma updateStatus_keeps_None:
  assumes "statuses d m = None" "signalsCount d m = 0"
  shows "statuses (fst (updateStatus cfg d m0 st ts)) m = None"
proof (cases "m = m0")
  case False
  then show ?thesis using assms by (simp add: statuses_updateStatus_other)
next
  case True
  then show ?thesis
    using assms by (simp add: updateStatus_nosignals statuses_resetNotFound)
qed

lemma updateStatus_record_origin:
  assumes "statuses (fst (updateStatus cfg d m0 st ts)) m \<noteq> None"
  shows "statuses d m \<noteq> None \<or> (m = m0 \<and> signalsCount d m0 \<noteq> 0)"
proof (cases "m = m0")
  case False
  then show ?thesis using assms by (simp add: statuses_updateStatus_other)
next
  case True
  show ?thesis
  proof (cases "signalsCount d m0 = 0")
    case z: True
    have "statuses d m = None \<Longrightarrow> statuses (fst (updateStatus cfg d m0 st ts)) m = None"
      using z True by (intro updateStatus_keeps_None) simp_all
    then show ?thesis using assms by blast
  next
    case False
    then show ?thesis using True by simp
  qed
qed

text \<open>
  Every \<open>delete from signals\<close> of \<open>main.go\<close> is followed by \<open>cleanStatuses\<close>, and
  \<open>updateStatus\<close> inserts a record only for a model with a subscription: records exist
  for watched models only, and a status update keeps it so.
\<close>

lemma processStatusUpdate_records_watched:
  assumes "\<forall>m. statuses (db w) m \<noteq> None \<longrightarrow> signalsCount (db w) m \<noteq> 0"
  shows "\<forall>m. statuses (dbOf (processStatusUpdate cfg w upd ts)) m \<noteq> None \<longrightarrow>
             signalsCount (dbOf (processStatusUpdate cfg w upd ts)) m \<noteq> 0"
proof -
  define m0 where "m0 = ModelID upd"
  define d1 where "d1 = (if Status upd = StatusNotFound
                then (if snd (notFound cfg (db w) m0)
                      then removeNotFound (fst (notFound cfg (db w) m0)) m0
                      else fst (notFound cfg (db w) m0))
                else db w)"
  have nf: "statuses (fst (notFound cfg (db w) m0)) m \<noteq> None \<longleftrightarrow> statuses (db w) m \<noteq> None" for m
    by (auto simp: notFound_def split: option.splits)
  have inv1: "statuses d1 m \<noteq> None \<longrightarrow> signalsCount d1 m \<noteq> 0" for m
    using assms nf [of m]
    by (auto simp: d1_def statuses_removeNotFound signalsCount_removeNotFound
        signalsCount_cong [OF signals_notFound] split: if_splits)
  have res: "dbOf (processStatusUpdate cfg w upd ts) =
             (if Status upd \<noteq> StatusUnknown then fst (updateStatus cfg d1 m0 (Status upd) ts) else d1)"
    by (simp add: dbOf_processStatusUpdate Let_def m0_def d1_def)
  show ?thesis
  proof (intro allI impI)
    fix m
    assume a: "statuses (dbOf (processStatusUpdate cfg w upd ts)) m \<noteq> None"
    show "signalsCount (dbOf (processStatusUpdate cfg w upd ts)) m \<noteq> 0"
    proof (cases "Status upd = StatusUnknown")
      case True
      then show ?thesis using a inv1 [of m] by (simp add: res)
    next
      case False
      then have "statuses d1 m \<noteq> None \<or> (m = m0 \<and> signalsCount d1 m0 \<noteq> 0)"
        using a updateStatus_record_origin [of cfg d1 m0 "Status upd" ts m] by (simp add: res)
      then have "signalsCount d1 m \<noteq> 0" using inv1 [of m] by auto
      then show ?thesis
        using False by (simp add: res signalsCount_cong [OF signals_updateStatus])
    qed
  qed
qed

text \<open>
  A worker whose buffer has the length \<open>errorDenominator\<close> and whose position is inside
  it, as \<open>newWorker\<close> makes it: a status update does not panic and keeps both.
\<close>

lemma processStatusUpdate_returns:
  assumes "int (length (unknowns w)) = errorDenominator cfg"
    and "0 \<le> unknownsPos w" "unknownsPos w < errorDenominator cfg"
  shows "\<exists>w' acts. processStatusUpdate cfg w upd ts = Inr (w', acts)
           \<and> int (length (unknowns w')) = errorDenominator cfg
           \<and> 0 \<le> unknownsPos w' \<and> unknownsPos w' < errorDenominator cfg"
proof -
  have pos: "0 < errorDenominator cfg" using assms(2,3) by simp
  have "0 \<le> (unknownsPos w + 1) smod errorDenominator cfg"
    and "(unknownsPos w + 1) smod errorDenominator cfg < errorDenominator cfg"
    using assms(2) pos by (simp_all add: smod_int_compares)
  then show ?thesis
    using assms pos
    by (simp add: processStatusUpdate_def Let_def split: prod.split)
qed

section \<open>Lemmas on \<open>cam4ModelRegex\<close>\<close>

lemma not_wordChar_punct:
  "\<not> wordChar (CHR ''.'')" "\<not> wordChar (CHR '':'')" "\<not> wordChar (CHR ''/'')" "\<not> wordChar (CHR ''?'')"
  by (simp_all add: wordChar_def)

lemma cam4ModelRegex_bare:
  assumes "\<forall>c\<in>set b. wordChar c"
  shows "cam4ModelRegex b = []"
proof -
  have colon: "CHR '':'' \<notin> set b" and dot: "CHR ''.'' \<notin> set b"
    using assms not_wordChar_punct by blast+
  have "take 8 b \<noteq> ''https://''"
  proof
    assume "take 8 b = ''https://''"
    then have "CHR '':'' \<in> set (take 8 b)" by simp
    then show False using colon by (meson in_set_takeD)
  qed
  moreover have "take 7 b \<noteq> ''http://''"
  proof
    assume "take 7 b = ''http://''"
    then have "CHR '':'' \<in> set (take 7 b)" by simp
    then show False using colon by (meson in_set_takeD)
  qed
  moreover have "take 9 b \<noteq> ''cam4.com/''"
  proof
    assume "take 9 b = ''cam4.com/''"
    then have "CHR ''.'' \<in> set (take 9 b)" by simp
    then show False using dot by (meson in_set_takeD)
  qed
  ultimately show ?thesis by (simp add: cam4ModelRegex_def)
qed

lemma cam4ModelRegex_host:
  assumes "a \<noteq> []" "\<forall>c\<in>set a. wordChar c"
    and "suffix = [] \<or> ((hd suffix = CHR ''/'' \<or> hd suffix = CHR ''?'') \<and> CHR 0x0A \<notin> set (tl suffix))"
    and "take 9 s = ''cam4.com/''" "drop 9 s = a @ suffix"
    and "(if take 8 name = ''https://'' then drop 8 name
               else if take 7 name = ''http://'' then drop 7 name
               else name) = s"
  shows "cam4ModelRegex name = [name, a]"
proof -
  have tw: "takeWhile wordChar (a @ suffix) = a"
  proof (cases suffix)
    case Nil then show ?thesis using assms(2) by simp
  next
    case (Cons c t)
    then have "\<not> wordChar c" using assms(3) not_wordChar_punct by auto
    then show ?thesis using assms(2) Cons by (simp add: takeWhile_append2)
  qed
  have dw: "dropWhile wordChar (a @ suffix) = suffix"
  proof (cases suffix)
    case Nil then show ?thesis using assms(2) by simp
  next
    case (Cons c t)
    then have "\<not> wordChar c" using assms(3) not_wordChar_punct by auto
    then show ?thesis using assms(2) Cons by (simp add: dropWhile_append2)
  qed
  have "cam4ModelRegex name =
          (case suffix of [] \<Rightarrow> [name, a]
           | c # tail \<Rightarrow> if (c = CHR ''/'' \<or> c = CHR ''?'') \<and> CHR 0x0A \<notin> set tail
                         then [name, a] else [])"
    unfolding cam4ModelRegex_def assms(6) Let_def assms(5) tw dw
    using assms(1,4) by simp
  then show ?thesis using assms(3) by (cases suffix) auto
qed

lemma cam4ModelRegex_url:
  assumes "a \<noteq> []" "\<forall>c\<in>set a. wordChar c"
    and "scheme = [] \<or> scheme = ''http://'' \<or> scheme = ''https://''"
    and "suffix = [] \<or> ((hd suffix = CHR ''/'' \<or> hd suffix = CHR ''?'') \<and> CHR 0x0A \<notin> set (tl suffix))"
  shows "cam4ModelRegex (scheme @ ''cam4.com/'' @ a @ suffix) = [scheme @ ''cam4.com/'' @ a @ suffix, a]"
  using assms(3)
proof (elim disjE)
  assume "scheme = []"
  then show ?thesis
    by (intro cam4ModelRegex_host [OF assms(1,2,4), where s = "''cam4.com/'' @ a @ suffix"]) simp_all
next
  assume "scheme = ''http://''"
  then show ?thesis
    by (intro cam4ModelRegex_host [OF assms(1,2,4), where s = "''cam4.com/'' @ a @ suffix"]) simp_all
next
  assume "scheme = ''https://''"
  then show ?thesis
    by (intro cam4ModelRegex_host [OF assms(1,2,4), where s = "''cam4.com/'' @ a @ suffix"]) simp_all
qed

section \<open>Lemmas on the health monitor and the roster checkers\<close>

lemma countTrue_filter: "countTrue xs n = n + int (length (filter (\<lambda>s. s) xs))"
  by (induction xs arbitrary: n) auto

lemma unknownsNumber_filter: "unknownsNumber w = int (length (filter (\<lambda>s. s) (unknowns w)))"
  by (simp add: unknownsNumber_def countTrue_filter)

lemma processStatusUpdate_no_ErrorRateReport:
  "ErrorRateReport n d \<notin> set (actionsOf (processStatusUpdate cfg w upd ts))"
  by (simp add: actionsOf_processStatusUpdate Let_def)

lemma processStatusUpdate_nextErrorReport:
  "processStatusUpdate cfg w upd ts = Inr (w', acts) \<Longrightarrow> nextErrorReport w' = nextErrorReport w"
  by (auto simp: processStatusUpdate_def Let_def split: prod.splits if_splits)

lemma processPeriodic_cooldown:
  "now \<le> nextErrorReport w \<Longrightarrow> processPeriodic cfg w now = (w, [])"
  by (simp add: processPeriodic_def Let_def)

lemma mainLoop_cooldown:
  assumes "\<forall>t. PeriodicTick t \<in> set events \<longrightarrow> t \<le> nextErrorReport w"
  shows "ErrorRateReport n d \<notin> set (actionsOf (mainLoop cfg w events))"
  using assms
proof (induction events arbitrary: w)
  case Nil
  then show ?case by (simp add: actionsOf_def)
next
  case (Cons e events)
  show ?case
  proof (cases e)
    case (PeriodicTick now)
    then have "now \<le> nextErrorReport w" using Cons.prems by simp
    then have pp: "processPeriodic cfg w now = (w, [])" by (rule processPeriodic_cooldown)
    have "ErrorRateReport n d \<notin> set (actionsOf (mainLoop cfg w events))"
      using Cons.prems by (intro Cons.IH) simp
    then show ?thesis
      unfolding PeriodicTick actionsOf_mainLoop_tick by (simp add: pp)
  next
    case (StatusUpdateEvent upd ts)
    show ?thesis
    proof (cases "processStatusUpdate cfg w upd ts")
      case (Inl x)
      then show ?thesis
        unfolding StatusUpdateEvent actionsOf_mainLoop_update
        using processStatusUpdate_no_ErrorRateReport [of n d cfg w upd ts] by simp
    next
      case (Inr y)
      obtain w' acts where y: "y = (w', acts)" by (cases y)
      have "nextErrorReport w' = nextErrorReport w"
        using Inr y by (auto dest: processStatusUpdate_nextErrorReport)
      then have "ErrorRateReport n d \<notin> set (actionsOf (mainLoop cfg w' events))"
        using Cons.prems by (intro Cons.IH) simp
      moreover have "ErrorRateReport n d \<notin> set acts"
        using processStatusUpdate_no_ErrorRateReport [of n d cfg w upd ts]
        by (simp add: Inr y actionsOf_def)
      ultimately show ?thesis
        unfolding StatusUpdateEvent actionsOf_mainLoop_update by (simp add: Inr y)
    qed
  qed
qed

lemma stripchat_hash:
  "fold (\<lambda>m h. h(ToLower m := True)) parsed h0 x = (h0 x \<or> x \<in> ToLower ` set parsed)"
  by (induction parsed arbitrary: h0) auto

lemma ModelID_sendUnknowns: "map ModelID (sendUnknowns models) = models"
  by (simp add: sendUnknowns_def comp_def)

lemma Status_sendUnknowns: "map Status (sendUnknowns models) = map (\<lambda>_. StatusUnknown) models"
  by (simp add: sendUnknowns_def comp_def)

lemma StripchatAPIChecker_round_ok:
  assumes "clientIdx < length clients"
    and "onlineQuery (clients ! clientIdx) = (QueryResponse 200 (Some parsed), elapsed)"
  shows "StripchatAPIChecker_round clients clientIdx onlineQuery models =
           Inr (if clientIdx + 1 = length clients then 0 else clientIdx + 1,
                Elapsed elapsed #
                map (\<lambda>m. Update \<lparr>ModelID = m,
                                  Status = (if m \<in> ToLower ` set parsed then StatusOnline
                                            else StatusOffline)\<rparr>) models)"
  using assms
  by (simp add: StripchatAPIChecker_round_def Let_def comp_def stripchat_hash)

lemma Cam4_roster_dom:
  "fold (\<lambda>m (onlineModels, images).
           (let modelID = ToLower (Nickname m)
            in (onlineModels(modelID \<mapsto> StatusOnline), images(modelID \<mapsto> ThumbBig m))))
     parsed (om, im) = (om', im') \<Longrightarrow>
   dom om' = dom om \<union> ToLower ` Nickname ` set parsed
   \<and> dom im' = dom im \<union> ToLower ` Nickname ` set parsed"
  by (induction parsed arbitrary: om im) (auto simp: Let_def)

lemma BongaCams_roster_dom:
  "fold (\<lambda>m (onlineModels, images).
           (let modelID = ToLower (Username m)
            in (onlineModels(modelID \<mapsto> StatusOnline),
                images(modelID \<mapsto> ''https:'' @ ThumbnailImageMediumLive m))))
     parsed (om, im) = (om', im') \<Longrightarrow>
   dom om' = dom om \<union> ToLower ` Username ` set parsed
   \<and> dom im' = dom im \<union> ToLower ` Username ` set parsed"
  by (induction parsed arbitrary: om im) (auto simp: Let_def)

text \<open>
  The three failures that every \<open>checkEndpoint\<close> reports: the query failed, the status
  code is not 200, the body does not decode.
\<close>

lemma checkEndpoint_failures:
  "BongaCams_checkEndpoint QueryError = Inl CannotSendQuery"
  "Cam4_checkEndpoint QueryError = Inl CannotSendQuery"
  "code \<noteq> 200 \<Longrightarrow> BongaCams_checkEndpoint (QueryResponse code decoded) = Inl (QueryStatus code)"
  "code \<noteq> 200 \<Longrightarrow> Cam4_checkEndpoint (QueryResponse code decoded') = Inl (QueryStatus code)"
  "BongaCams_checkEndpoint (QueryResponse 200 None) = Inl CannotParseResponse"
  "Cam4_checkEndpoint (QueryResponse 200 None) = Inl CannotParseResponse"
  by (simp_all add: BongaCams_checkEndpoint_def Cam4_checkEndpoint_def)

text \<open>
  Scenario C of the specification: a buffer of 10, threshold 5. Six Unknown results and
  a tick make one report; a seventh Unknown result and a tick inside the reporting
  period make no other.
\<close>

lemma error_rate_scenario:
  "actionsOf (mainLoop cfgQuiet
     \<lparr>db = \<lparr>signals = [aliceRow], statuses = Map.empty\<rparr>, unknowns = replicate 10 False,
      unknownsPos = 0, nextErrorReport = 0\<rparr>
     (replicate 6 (StatusUpdateEvent \<lparr>ModelID = ''alice'', Status = StatusUnknown\<rparr> 900)
      @ [PeriodicTick 1000,
         StatusUpdateEvent \<lparr>ModelID = ''alice'', Status = StatusUnknown\<rparr> 1001,
         PeriodicTick 2000])) = [ErrorRateReport 6 10]"
  by (simp add: numeral_eq_Suc processStatusUpdate_def processPeriodic_def unknownsNumber_def
      reportingPeriod_def actionsOf_def Let_def smod_int_alt_def)

section \<open>Theorems\<close>

text \<open>
  C10. A model without a subscription row in \<open>signals\<close>: for every observed status and
  timestamp, \<open>updateStatus\<close> returns \<open>notify = false\<close>, the set of models that have a
  status record is the same after the call (none is created), and the subscriptions are
  untouched.
\<close>

theorem updateStatus_unwatched:
  assumes "signalsCount d modelID = 0"
  shows "snd (updateStatus cfg d modelID newStatus timestamp) = False
         \<and> dom (statuses (fst (updateStatus cfg d modelID newStatus timestamp))) = dom (statuses d)
         \<and> signals (fst (updateStatus cfg d modelID newStatus timestamp)) = signals d"
  using assms by (simp add: updateStatus_def Let_def)

theorem updateStatus_unwatched_witness:
  "signalsCount \<lparr>signals = [], statuses = Map.empty\<rparr> ''alice'' = 0
   \<and> snd (updateStatus
            \<lparr>OfflineNotifications = True, OfflineThresholdSeconds = 0, NotFoundThreshold = 3,
             errorThreshold = 5, errorDenominator = 10, ErrorReportingPeriodMinutes = 1\<rparr>
            \<lparr>signals = [], statuses = Map.empty\<rparr> ''alice'' StatusOnline 7) = False"
  using updateStatus_unwatched [of "\<lparr>signals = [], statuses = Map.empty\<rparr>" "''alice''"
      "\<lparr>OfflineNotifications = True, OfflineThresholdSeconds = 0, NotFoundThreshold = 3,
       errorThreshold = 5, errorDenominator = 10, ErrorReportingPeriodMinutes = 1\<rparr>"
      StatusOnline 7]
  by (simp add: signalsCount_def)

text \<open>
  C2, as the code has it. For a watched model (a row in \<open>signals\<close>) and an observed
  status Online, Offline or Denied: when the model has a row in \<open>statuses\<close>,
  \<open>updateStatus\<close> returns \<open>notify\<close> exactly when the stored status differs from the
  observed one, and offline notifications are enabled or the new status is Online, and
  offline notifications are enabled or \<open>timestamp - last_online\<close> is at least the
  offline threshold; when the model has no row, the row is inserted and \<open>notify\<close> is
  true whatever the configuration.
\<close>

theorem updateStatus_notify:
  assumes "signalsCount (db w) (ModelID upd) \<noteq> 0"
    and "Status upd = StatusOnline \<or> Status upd = StatusOffline \<or> Status upd = StatusDenied"
  shows "snd (updateStatus cfg (db w) (ModelID upd) (Status upd) ts) =
           (case statuses (db w) (ModelID upd) of
              None \<Rightarrow> True
            | Some r \<Rightarrow>
                status r \<noteq> Status upd
                \<and> (OfflineNotifications cfg \<or> Status upd = StatusOnline)
                \<and> (OfflineNotifications cfg
                     \<or> OfflineThresholdSeconds cfg \<le>s ts - last_online r))
         \<and> actionsOf (processStatusUpdate cfg w upd ts) =
             (if snd (updateStatus cfg (db w) (ModelID upd) (Status upd) ts)
              then [ReportStatus (ModelID upd) (Status upd)] else [])"
proof -
  have nn: "Status upd \<noteq> StatusNotFound" and nu: "Status upd \<noteq> StatusUnknown"
    using assms(2) by auto
  have "snd (updateStatus cfg (db w) (ModelID upd) (Status upd) ts) =
           (case statuses (db w) (ModelID upd) of
              None \<Rightarrow> True
            | Some r \<Rightarrow>
                status r \<noteq> Status upd
                \<and> (OfflineNotifications cfg \<or> Status upd = StatusOnline)
                \<and> (OfflineNotifications cfg
                     \<or> OfflineThresholdSeconds cfg \<le>s ts - last_online r))"
  proof (cases "statuses (db w) (ModelID upd)")
    case None
    then show ?thesis using assms(1) by (simp add: updateStatus_missing)
  next
    case (Some r)
    then show ?thesis using assms(1) nn by (auto simp: updateStatus_existing)
  qed
  moreover have "actionsOf (processStatusUpdate cfg w upd ts) =
             (if snd (updateStatus cfg (db w) (ModelID upd) (Status upd) ts)
              then [ReportStatus (ModelID upd) (Status upd)] else [])"
    using nn nu by (simp add: actionsOf_processStatusUpdate)
  ultimately show ?thesis by simp
qed

theorem updateStatus_notify_witness:
  "signalsCount (db (aliceWorker StatusOffline 0 100)) ''alice'' \<noteq> 0
   \<and> snd (updateStatus cfgQuiet (aliceDb StatusOffline 0 100) ''alice'' StatusOnline 1000) = True
   \<and> actionsOf (processStatusUpdate cfgQuiet (aliceWorker StatusOffline 0 100)
                  \<lparr>ModelID = ''alice'', Status = StatusOnline\<rparr> 1000) =
       [ReportStatus ''alice'' StatusOnline]"
  using updateStatus_notify [where w = "aliceWorker StatusOffline 0 100"
      and upd = "\<lparr>ModelID = ''alice'', Status = StatusOnline\<rparr>" and cfg = cfgQuiet and ts = 1000]
  by (simp add: signalsCount_def)

text \<open>
  C2, the claim as stated fails: a watched model without a status record, offline
  notifications disabled, an Offline result: \<open>updateStatus\<close> returns \<open>notify = true\<close>, while the rule evaluated with the prior
  status Unknown and the prior \<open>last_online\<close> 0 is false.
\<close>

theorem updateStatus_first_status_counterexample:
  "signalsCount \<lparr>signals = [aliceRow], statuses = Map.empty\<rparr> ''alice'' \<noteq> 0
   \<and> statuses \<lparr>signals = [aliceRow], statuses = Map.empty\<rparr> ''alice'' = None
   \<and> snd (updateStatus cfgQuiet \<lparr>signals = [aliceRow], statuses = Map.empty\<rparr>
             ''alice'' StatusOffline 1000) = True
   \<and> \<not> (StatusUnknown \<noteq> StatusOffline
          \<and> (OfflineNotifications cfgQuiet \<or> StatusOffline = StatusOnline)
          \<and> (OfflineNotifications cfgQuiet \<or> OfflineThresholdSeconds cfgQuiet \<le>s 1000 - 0))"
  by (simp add: signalsCount_def updateStatus_def Let_def resetNotFound_def)

text \<open>
  C4. A NotFound result for a model that has a status record \<open>r\<close> and a subscription
  (records exist for watched models only, see \<open>processStatusUpdate_records_watched\<close>). If the
  incremented streak is within the threshold, no removal is reported, the subscriptions
  stay, and the record becomes \<open>r\<close> with the streak plus one and the status Offline.
  If the incremented streak exceeds the threshold, exactly the report of the removal is
  made, every subscription of the model is deleted, its status record is deleted, and
  from any worker with that database no later run of the loop over ticks and status
  updates reports the removal of that model again.
\<close>

theorem processStatusUpdate_NotFound:
  assumes "Status upd = StatusNotFound"
    and "statuses (db w) (ModelID upd) = Some r"
    and "signalsCount (db w) (ModelID upd) \<noteq> 0"
  shows "if NotFoundThreshold cfg < not_found r + 1
         then actionsOf (processStatusUpdate cfg w upd ts) = [ReportNotFound (ModelID upd)]
              \<and> signals (dbOf (processStatusUpdate cfg w upd ts)) =
                  filter (\<lambda>row. model_id row \<noteq> ModelID upd) (signals (db w))
              \<and> statuses (dbOf (processStatusUpdate cfg w upd ts)) (ModelID upd) = None
              \<and> (\<forall>w' events. db w' = dbOf (processStatusUpdate cfg w upd ts) \<longrightarrow>
                    ReportNotFound (ModelID upd) \<notin> set (actionsOf (mainLoop cfg w' events)))
         else ReportNotFound (ModelID upd) \<notin> set (actionsOf (processStatusUpdate cfg w upd ts))
              \<and> signals (dbOf (processStatusUpdate cfg w upd ts)) = signals (db w)
              \<and> statuses (dbOf (processStatusUpdate cfg w upd ts)) (ModelID upd) =
                  Some (r\<lparr>not_found := not_found r + 1, status := StatusOffline\<rparr>)"
proof (cases "NotFoundThreshold cfg < not_found r + 1")
  case True
  define m where "m = ModelID upd"
  define d' where "d' = (db w)\<lparr>statuses := (statuses (db w))(m \<mapsto> r\<lparr>not_found := not_found r + 1\<rparr>)\<rparr>"
  have nf: "notFound cfg (db w) m = (d', True)"
    using assms(2) True by (simp add: notFound_existing m_def d'_def)
  have c: "signalsCount (removeNotFound d' m) m = 0"
    by (simp add: signalsCount_removeNotFound)
  have st: "statuses (removeNotFound d' m) m = None"
    by (simp add: statuses_removeNotFound)
  have res: "dbOf (processStatusUpdate cfg w upd ts) = removeNotFound d' m"
    using assms(1) c
    by (simp add: dbOf_processStatusUpdate Let_def m_def [symmetric] nf updateStatus_nosignals)
  have acts: "actionsOf (processStatusUpdate cfg w upd ts) = [ReportNotFound m]"
    using assms(1) c
    by (simp add: actionsOf_processStatusUpdate Let_def m_def [symmetric] nf updateStatus_nosignals)
  have later: "\<forall>w' events. db w' = dbOf (processStatusUpdate cfg w upd ts) \<longrightarrow>
                 ReportNotFound m \<notin> set (actionsOf (mainLoop cfg w' events))"
  proof (intro allI impI)
    fix w' :: worker and events
    assume "db w' = dbOf (processStatusUpdate cfg w upd ts)"
    then have "signalsCount (db w') m = 0" "statuses (db w') m = None"
      using c st by (simp_all add: res signalsCount_def)
    then show "ReportNotFound m \<notin> set (actionsOf (mainLoop cfg w' events))"
      by (rule mainLoop_unwatched)
  qed
  have sg: "signals (removeNotFound d' m) = filter (\<lambda>row. model_id row \<noteq> m) (signals (db w))"
    by (simp add: signals_removeNotFound d'_def)
  show ?thesis
    using True acts later st sg by (simp add: res m_def [symmetric])
next
  case False
  define m where "m = ModelID upd"
  define d' where "d' = (db w)\<lparr>statuses := (statuses (db w))(m \<mapsto> r\<lparr>not_found := not_found r + 1\<rparr>)\<rparr>"
  have nf: "notFound cfg (db w) m = (d', False)"
    using assms(2) False by (simp add: notFound_existing m_def d'_def)
  have c: "signalsCount d' m \<noteq> 0"
    using assms(3) by (simp add: d'_def m_def)
  have st: "statuses d' m = Some (r\<lparr>not_found := not_found r + 1\<rparr>)"
    by (simp add: d'_def)
  note us = updateStatus_existing_NotFound [OF c st, of cfg ts]
  have res: "dbOf (processStatusUpdate cfg w upd ts) =
             d'\<lparr>statuses := (statuses d')(m \<mapsto> r\<lparr>not_found := not_found r + 1, status := StatusOffline\<rparr>)\<rparr>"
    using assms(1)
    by (simp add: dbOf_processStatusUpdate Let_def m_def [symmetric] nf us)
  have acts: "ReportNotFound m \<notin> set (actionsOf (processStatusUpdate cfg w upd ts))"
    using assms(1)
    by (simp add: actionsOf_processStatusUpdate Let_def m_def [symmetric] nf)
  show ?thesis
    using False acts by (simp add: res m_def [symmetric] d'_def)
qed

theorem processStatusUpdate_NotFound_witness:
  "Status \<lparr>ModelID = ''alice'', Status = StatusNotFound\<rparr> = StatusNotFound
   \<and> statuses (db (aliceWorker StatusOnline 2 100)) ''alice'' =
       Some \<lparr>status = StatusOnline, not_found = 2, last_online = 100\<rparr>
   \<and> signalsCount (db (aliceWorker StatusOnline 2 100)) ''alice'' \<noteq> 0
   \<and> actionsOf (processStatusUpdate cfgQuiet (aliceWorker StatusOnline 2 100)
                  \<lparr>ModelID = ''alice'', Status = StatusNotFound\<rparr> 1000) =
       [ReportNotFound ''alice'']
   \<and> statuses (dbOf (processStatusUpdate cfgQuiet (aliceWorker StatusOnline 2 100)
                  \<lparr>ModelID = ''alice'', Status = StatusNotFound\<rparr> 1000)) ''alice'' = None"
  using processStatusUpdate_NotFound [where upd = "\<lparr>ModelID = ''alice'', Status = StatusNotFound\<rparr>"
      and w = "aliceWorker StatusOnline 2 100"
      and r = "\<lparr>status = StatusOnline, not_found = 2, last_online = 100\<rparr>"
      and cfg = cfgQuiet and ts = 1000]
  by (simp add: signalsCount_def)

text \<open>
  C5, as the code has it. After a result whose status is neither NotFound nor Unknown,
  the model's record, if there is one, has streak 0; and a record that was there is
  still there.
\<close>

theorem notFoundStreak_reset:
  assumes "Status upd \<noteq> StatusNotFound" "Status upd \<noteq> StatusUnknown"
  shows "case statuses (dbOf (processStatusUpdate cfg w upd ts)) (ModelID upd) of
           None \<Rightarrow> statuses (db w) (ModelID upd) = None
         | Some r' \<Rightarrow> not_found r' = 0"
proof -
  have res: "dbOf (processStatusUpdate cfg w upd ts) =
             fst (updateStatus cfg (db w) (ModelID upd) (Status upd) ts)"
    using assms by (simp add: dbOf_processStatusUpdate)
  show ?thesis
  proof (cases "signalsCount (db w) (ModelID upd) = 0")
    case True
    then show ?thesis
      using assms(1)
      by (simp add: res updateStatus_nosignals statuses_resetNotFound split: option.split)
  next
    case False
    then show ?thesis
      using assms(1)
      by (cases "statuses (db w) (ModelID upd)")
        (simp_all add: res updateStatus_missing updateStatus_existing)
  qed
qed

theorem notFoundStreak_reset_witness:
  "Status \<lparr>ModelID = ''alice'', Status = StatusOffline\<rparr> \<noteq> StatusNotFound
   \<and> Status \<lparr>ModelID = ''alice'', Status = StatusOffline\<rparr> \<noteq> StatusUnknown
   \<and> map_option not_found
        (statuses (dbOf (processStatusUpdate cfgQuiet (aliceWorker StatusOnline 2 100)
                           \<lparr>ModelID = ''alice'', Status = StatusOffline\<rparr> 1000)) ''alice'') = Some 0"
  using notFoundStreak_reset [where upd = "\<lparr>ModelID = ''alice'', Status = StatusOffline\<rparr>"
      and cfg = cfgQuiet and w = "aliceWorker StatusOnline 2 100" and ts = 1000]
  by (auto split: option.splits)

text \<open>
  C5, the claim as stated fails: a record with streak 2 and an Unknown result, which is
  not NotFound: the streak is still 2 afterwards.
\<close>

theorem notFoundStreak_Unknown_counterexample:
  "Status \<lparr>ModelID = ''alice'', Status = StatusUnknown\<rparr> \<noteq> StatusNotFound
   \<and> map_option not_found
        (statuses (dbOf (processStatusUpdate cfgQuiet (aliceWorker StatusOnline 2 100)
                           \<lparr>ModelID = ''alice'', Status = StatusUnknown\<rparr> 1000)) ''alice'') = Some 2"
  by (simp add: processStatusUpdate_def dbOf_def smod_int_alt_def)

text \<open>
  C6, as the code has it. A record \<open>r'\<close> that exists after a result was processed: if
  the model had a record before, \<open>last_online\<close> is the result's timestamp when the
  result is for this model, its status is Online and the model is watched, and is
  unchanged otherwise; if the model had none, \<open>last_online\<close> is the timestamp for an
  Online result and 0 otherwise.
\<close>

theorem last_online_changes:
  assumes "statuses (dbOf (processStatusUpdate cfg w upd ts)) m = Some r'"
  shows "last_online r' =
           (case statuses (db w) m of
              Some r \<Rightarrow> if m = ModelID upd \<and> Status upd = StatusOnline
                           \<and> signalsCount (db w) m \<noteq> 0
                        then ts else last_online r
            | None \<Rightarrow> if Status upd = StatusOnline then ts else 0)"
proof -
  define m0 where "m0 = ModelID upd"
  consider (unknown) "Status upd = StatusUnknown"
    | (nf) "Status upd = StatusNotFound"
    | (other) "Status upd \<noteq> StatusUnknown" "Status upd \<noteq> StatusNotFound"
    by blast
  then show ?thesis
  proof cases
    case unknown
    then show ?thesis
      using assms by (simp add: dbOf_processStatusUpdate)
  next
    case other
    then have "dbOf (processStatusUpdate cfg w upd ts) =
               fst (updateStatus cfg (db w) (ModelID upd) (Status upd) ts)"
      by (simp add: dbOf_processStatusUpdate)
    then show ?thesis
      using updateStatus_last_online [of cfg "db w" "ModelID upd" "Status upd" ts m r'] assms
      by simp
  next
    case nf
    define d1 where "d1 = (if snd (notFound cfg (db w) m0)
                      then removeNotFound (fst (notFound cfg (db w) m0)) m0
                      else fst (notFound cfg (db w) m0))"
    have res: "dbOf (processStatusUpdate cfg w upd ts) =
               fst (updateStatus cfg d1 m0 StatusNotFound ts)"
      using nf by (simp add: dbOf_processStatusUpdate m0_def d1_def Let_def)
    have nf_lo: "statuses (fst (notFound cfg (db w) m0)) m = Some x \<Longrightarrow>
                 \<exists>r. statuses (db w) m = Some r \<and> last_online x = last_online r" for x
      by (auto simp: notFound_def split: option.splits if_splits)
    have d1_lo: "\<exists>r. statuses (db w) m = Some r \<and> last_online x = last_online r"
      if "statuses d1 m = Some x" for x
      using that nf_lo by (auto simp: d1_def statuses_removeNotFound split: if_splits)
    have d1_none: "signalsCount d1 m = 0" if "statuses d1 m = None" "statuses (db w) m \<noteq> None"
    proof (cases "snd (notFound cfg (db w) m0)")
      case True
      have "statuses (fst (notFound cfg (db w) m0)) m \<noteq> None"
        using that(2) by (auto simp: notFound_def split: option.splits)
      then have "m = m0 \<or> signalsCount (fst (notFound cfg (db w) m0)) m = 0"
        using that(1) True by (auto simp: d1_def statuses_removeNotFound split: if_splits)
      then show ?thesis
        using True by (auto simp: d1_def signalsCount_removeNotFound)
    next
      case False
      then have "statuses d1 m \<noteq> None"
        using that(2) by (auto simp: d1_def notFound_def split: option.splits)
      then show ?thesis using that(1) by simp
    qed
    show ?thesis
    proof (cases "statuses d1 m")
      case (Some x)
      then obtain r where r: "statuses (db w) m = Some r" "last_online x = last_online r"
        using d1_lo by blast
      show ?thesis
        using updateStatus_last_online [of cfg d1 m0 StatusNotFound ts m r'] assms nf
        by (simp add: res Some r)
    next
      case None
      show ?thesis
      proof (cases "statuses (db w) m")
        case None': None
        show ?thesis
          using updateStatus_last_online [of cfg d1 m0 StatusNotFound ts m r'] assms nf
          by (simp add: res None None')
      next
        case (Some r)
        then have "signalsCount d1 m = 0" using d1_none None by simp
        then have "statuses (fst (updateStatus cfg d1 m0 StatusNotFound ts)) m = None"
          using None by (intro updateStatus_keeps_None)
        then show ?thesis using assms by (simp add: res)
      qed
    qed
  qed
qed

theorem last_online_changes_witness:
  "statuses (dbOf (processStatusUpdate cfgQuiet (aliceWorker StatusOffline 0 100)
                      \<lparr>ModelID = ''alice'', Status = StatusOnline\<rparr> 1000)) ''alice'' =
     Some \<lparr>status = StatusOnline, not_found = 0, last_online = 1000\<rparr>
   \<and> last_online \<lparr>status = StatusOnline, not_found = 0, last_online = 1000\<rparr> = 1000"
proof -
  have h: "statuses (dbOf (processStatusUpdate cfgQuiet (aliceWorker StatusOffline 0 100)
                      \<lparr>ModelID = ''alice'', Status = StatusOnline\<rparr> 1000)) ''alice'' =
     Some \<lparr>status = StatusOnline, not_found = 0, last_online = 1000\<rparr>"
    by (simp add: processStatusUpdate_def dbOf_def smod_int_alt_def updateStatus_def Let_def
        resetNotFound_def signalsCount_def)
  show ?thesis
    using last_online_changes [OF h] h by simp
qed

text \<open>
  C6, the claim as stated fails: a record with status Online and \<open>last_online = 100\<close>,
  and an Online result at 1000: the stored status does not change, and \<open>last_online\<close>
  becomes 1000.
\<close>

theorem last_online_refresh_counterexample:
  "map_option status (statuses (db (aliceWorker StatusOnline 0 100)) ''alice'') = Some StatusOnline
   \<and> map_option last_online (statuses (db (aliceWorker StatusOnline 0 100)) ''alice'') = Some 100
   \<and> map_option status
        (statuses (dbOf (processStatusUpdate cfgQuiet (aliceWorker StatusOnline 0 100)
                           \<lparr>ModelID = ''alice'', Status = StatusOnline\<rparr> 1000)) ''alice'') =
       Some StatusOnline
   \<and> map_option last_online
        (statuses (dbOf (processStatusUpdate cfgQuiet (aliceWorker StatusOnline 0 100)
                           \<lparr>ModelID = ''alice'', Status = StatusOnline\<rparr> 1000)) ''alice'') = Some 1000"
  by (simp add: processStatusUpdate_def dbOf_def smod_int_alt_def updateStatus_def Let_def
        resetNotFound_def signalsCount_def)

text \<open>
  C7. A result with status Unknown leaves the database (subscriptions and status
  records) as it was and reports nothing; when the buffer position is in range and the
  denominator is not zero, the whole effect is one \<open>true\<close> sample written at the current
  position of the buffer and the position advanced.
\<close>

theorem processStatusUpdate_Unknown:
  assumes "Status upd = StatusUnknown"
  shows "dbOf (processStatusUpdate cfg w upd ts) = db w
         \<and> actionsOf (processStatusUpdate cfg w upd ts) = []
         \<and> (0 \<le> unknownsPos w \<and> unknownsPos w < int (length (unknowns w))
              \<and> errorDenominator cfg \<noteq> 0 \<longrightarrow>
            processStatusUpdate cfg w upd ts =
              Inr (w\<lparr>unknowns := (unknowns w)[nat (unknownsPos w) := True],
                     unknownsPos := (unknownsPos w + 1) smod errorDenominator cfg\<rparr>, []))"
  using assms
  by (simp add: dbOf_processStatusUpdate actionsOf_processStatusUpdate)
    (simp add: processStatusUpdate_def)

theorem processStatusUpdate_Unknown_witness:
  "Status \<lparr>ModelID = ''alice'', Status = StatusUnknown\<rparr> = StatusUnknown
   \<and> processStatusUpdate cfgQuiet (aliceWorker StatusOnline 2 100)
        \<lparr>ModelID = ''alice'', Status = StatusUnknown\<rparr> 1000 =
      Inr (\<lparr>db = aliceDb StatusOnline 2 100,
            unknowns = True # replicate 9 False, unknownsPos = 1, nextErrorReport = 0\<rparr>, [])"
  using processStatusUpdate_Unknown [where upd = "\<lparr>ModelID = ''alice'', Status = StatusUnknown\<rparr>"
      and cfg = cfgQuiet and w = "aliceWorker StatusOnline 2 100" and ts = 1000]
  by (simp add: smod_int_alt_def numeral_eq_Suc)

text \<open>
  C8. At a periodic evaluation the error-rate report is made exactly when the number of
  \<open>true\<close> samples in the buffer is greater than the threshold and \<open>nextErrorReport\<close> is
  before \<open>now\<close>. Without a report the worker is unchanged. With a report, it is the one
  message with the count and the denominator, \<open>nextErrorReport\<close> becomes \<open>now\<close> plus the
  reporting period, and no run of the loop from there whose ticks are all at or before
  that instant makes another report, whatever results it processes.
\<close>

theorem processPeriodic_report:
  "(snd (processPeriodic cfg w now) \<noteq> []) =
     (errorThreshold cfg < int (length (filter (\<lambda>s. s) (unknowns w)))
      \<and> nextErrorReport w < now)
   \<and> (snd (processPeriodic cfg w now) = [] \<longrightarrow> fst (processPeriodic cfg w now) = w)
   \<and> (snd (processPeriodic cfg w now) \<noteq> [] \<longrightarrow>
        snd (processPeriodic cfg w now) =
          [ErrorRateReport (int (length (filter (\<lambda>s. s) (unknowns w)))) (errorDenominator cfg)]
        \<and> fst (processPeriodic cfg w now) = w\<lparr>nextErrorReport := now + reportingPeriod cfg\<rparr>
        \<and> (\<forall>events n d.
              (\<forall>t. PeriodicTick t \<in> set events \<longrightarrow> t \<le> now + reportingPeriod cfg) \<longrightarrow>
              ErrorRateReport n d
                \<notin> set (actionsOf (mainLoop cfg (fst (processPeriodic cfg w now)) events))))"
proof (intro conjI impI allI)
  show "(snd (processPeriodic cfg w now) \<noteq> []) =
     (errorThreshold cfg < int (length (filter (\<lambda>s. s) (unknowns w)))
      \<and> nextErrorReport w < now)"
    by (auto simp: processPeriodic_def Let_def unknownsNumber_filter)
next
  assume "snd (processPeriodic cfg w now) = []"
  then show "fst (processPeriodic cfg w now) = w"
    by (auto simp: processPeriodic_def Let_def split: if_splits)
next
  assume "snd (processPeriodic cfg w now) \<noteq> []"
  then show "snd (processPeriodic cfg w now) =
          [ErrorRateReport (int (length (filter (\<lambda>s. s) (unknowns w)))) (errorDenominator cfg)]"
    by (auto simp: processPeriodic_def Let_def unknownsNumber_filter split: if_splits)
next
  assume "snd (processPeriodic cfg w now) \<noteq> []"
  then show "fst (processPeriodic cfg w now) = w\<lparr>nextErrorReport := now + reportingPeriod cfg\<rparr>"
    by (auto simp: processPeriodic_def Let_def split: if_splits)
next
  fix events n d
  assume alert: "snd (processPeriodic cfg w now) \<noteq> []"
    and ticks: "\<forall>t. PeriodicTick t \<in> set events \<longrightarrow> t \<le> now + reportingPeriod cfg"
  from alert have "nextErrorReport (fst (processPeriodic cfg w now)) = now + reportingPeriod cfg"
    by (auto simp: processPeriodic_def Let_def split: if_splits)
  with ticks show "ErrorRateReport n d
      \<notin> set (actionsOf (mainLoop cfg (fst (processPeriodic cfg w now)) events))"
    by (intro mainLoop_cooldown) simp
qed

theorem processPeriodic_report_witness:
  "errorThreshold cfgQuiet < int (length (filter (\<lambda>s. s) (replicate 6 True @ replicate 4 False)))
   \<and> snd (processPeriodic cfgQuiet
        \<lparr>db = aliceDb StatusOnline 0 100, unknowns = replicate 6 True @ replicate 4 False,
         unknownsPos = 6, nextErrorReport = 0\<rparr> 1000) = [ErrorRateReport 6 10]
   \<and> ErrorRateReport 7 10 \<notin> set (actionsOf (mainLoop cfgQuiet
        (fst (processPeriodic cfgQuiet
          \<lparr>db = aliceDb StatusOnline 0 100, unknowns = replicate 6 True @ replicate 4 False,
           unknownsPos = 6, nextErrorReport = 0\<rparr> 1000))
        [StatusUpdateEvent \<lparr>ModelID = ''alice'', Status = StatusUnknown\<rparr> 1001,
         PeriodicTick 2000]))"
proof -
  let ?w = "\<lparr>db = aliceDb StatusOnline 0 100, unknowns = replicate 6 True @ replicate 4 False,
         unknownsPos = 6, nextErrorReport = 0\<rparr>"
  let ?events = "[StatusUpdateEvent \<lparr>ModelID = ''alice'', Status = StatusUnknown\<rparr> 1001,
         PeriodicTick 2000]"
  note t = processPeriodic_report [where cfg = cfgQuiet and now = 1000 and w = ?w]
  have c: "int (length (filter (\<lambda>s. s) (replicate 6 True @ replicate 4 False))) = 6"
    by (simp add: numeral_eq_Suc)
  have p: "reportingPeriod cfgQuiet = 60000000000"
    by (simp add: reportingPeriod_def)
  have a: "snd (processPeriodic cfgQuiet ?w 1000) \<noteq> []"
    using t c by simp
  have b: "snd (processPeriodic cfgQuiet ?w 1000) = [ErrorRateReport 6 10]"
    using t a c by simp
  have ticks: "\<forall>t. PeriodicTick t \<in> set ?events \<longrightarrow> t \<le> 1000 + reportingPeriod cfgQuiet"
    by (simp add: p)
  have l: "ErrorRateReport 7 10 \<notin> set (actionsOf (mainLoop cfgQuiet
             (fst (processPeriodic cfgQuiet ?w 1000)) ?events))"
    using t a ticks by blast
  show ?thesis
    using b l c by simp
qed

text \<open>
  C3. A round of the Stripchat checker with a client at \<open>clientIdx\<close>: it sends the elapsed
  time once and then one update per model of the list, in the order of the list. When
  the query succeeds with status 200 and a body that decodes, a model is Online if it is
  among the lower-cased user names of the response and Offline otherwise; in every other
  case every model is Unknown.
\<close>

theorem StripchatAPIChecker_round_results:
  assumes "clientIdx < length clients"
  shows "(\<forall>parsed. fst (onlineQuery (clients ! clientIdx)) = QueryResponse 200 (Some parsed) \<longrightarrow>
            StripchatAPIChecker_round clients clientIdx onlineQuery models =
              Inr (if clientIdx + 1 = length clients then 0 else clientIdx + 1,
                   Elapsed (snd (onlineQuery (clients ! clientIdx))) #
                   map (\<lambda>m. Update \<lparr>ModelID = m,
                                     Status = (if m \<in> ToLower ` set parsed then StatusOnline
                                               else StatusOffline)\<rparr>) models))
         \<and> ((\<nexists>parsed. fst (onlineQuery (clients ! clientIdx)) = QueryResponse 200 (Some parsed)) \<longrightarrow>
            StripchatAPIChecker_round clients clientIdx onlineQuery models =
              Inr (if clientIdx + 1 = length clients then 0 else clientIdx + 1,
                   Elapsed (snd (onlineQuery (clients ! clientIdx))) #
                   map (\<lambda>m. Update \<lparr>ModelID = m, Status = StatusUnknown\<rparr>) models))"
proof -
  obtain q elapsed where oq: "onlineQuery (clients ! clientIdx) = (q, elapsed)"
    by (cases "onlineQuery (clients ! clientIdx)")
  have ok: "StripchatAPIChecker_round clients clientIdx onlineQuery models =
              Inr (if clientIdx + 1 = length clients then 0 else clientIdx + 1,
                   Elapsed elapsed #
                   map (\<lambda>m. Update \<lparr>ModelID = m,
                                     Status = (if m \<in> ToLower ` set parsed then StatusOnline
                                               else StatusOffline)\<rparr>) models)"
    if "q = QueryResponse 200 (Some parsed)" for parsed
    using StripchatAPIChecker_round_ok [OF assms, of onlineQuery parsed elapsed models] that
    by (simp add: oq)
  have bad: "StripchatAPIChecker_round clients clientIdx onlineQuery models =
              Inr (if clientIdx + 1 = length clients then 0 else clientIdx + 1,
                   Elapsed elapsed #
                   map (\<lambda>m. Update \<lparr>ModelID = m, Status = StatusUnknown\<rparr>) models)"
    if "\<nexists>parsed. q = QueryResponse 200 (Some parsed)"
    using assms that
    by (auto simp: StripchatAPIChecker_round_def oq Let_def comp_def sendUnknowns_def
        split: query_result.split option.split)
  show ?thesis
    using ok bad by (simp add: oq)
qed

theorem StripchatAPIChecker_round_results_witness:
  "(1::nat) < length [''10.0.0.1'', ''10.0.0.2'']
   \<and> StripchatAPIChecker_round [''10.0.0.1'', ''10.0.0.2''] 1
        (\<lambda>c. (QueryResponse 200 (Some [''E1'']), 250)) [''e1'', ''e2'', ''e3''] =
      Inr (0, [Elapsed 250,
               Update \<lparr>ModelID = ''e1'', Status = StatusOnline\<rparr>,
               Update \<lparr>ModelID = ''e2'', Status = StatusOffline\<rparr>,
               Update \<lparr>ModelID = ''e3'', Status = StatusOffline\<rparr>])"
proof -
  have h: "(1::nat) < length [''10.0.0.1'', ''10.0.0.2'']" by simp
  have l: "ToLower ''E1'' = ''e1''" by code_simp
  show ?thesis
    using StripchatAPIChecker_round_results [OF h,
        of "\<lambda>c. (QueryResponse 200 (Some [''E1'']), 250)" "[''e1'', ''e2'', ''e3'']"]
    by (simp add: l)
qed

text \<open>
  C1. A response with status 200 whose body decodes to an empty list: the BongaCams
  \<open>checkEndpoint\<close> returns the error "zero online models reported"; the CAM4
  \<open>checkEndpoint\<close> returns two empty maps and no error; the Stripchat round sends
  Offline for every model of the list.
\<close>

theorem checkEndpoint_zero_length:
  "BongaCams_checkEndpoint (QueryResponse 200 (Some [])) = Inl ZeroOnlineModels
   \<and> Cam4_checkEndpoint (QueryResponse 200 (Some [])) = Inr (Map.empty, Map.empty)
   \<and> StripchatAPIChecker_round [''10.0.0.1''] 0 (\<lambda>c. (QueryResponse 200 (Some []), 250))
        [''alice'', ''bob''] =
      Inr (0, [Elapsed 250,
               Update \<lparr>ModelID = ''alice'', Status = StatusOffline\<rparr>,
               Update \<lparr>ModelID = ''bob'', Status = StatusOffline\<rparr>])"
  by (simp add: BongaCams_checkEndpoint_def Cam4_checkEndpoint_def StripchatAPIChecker_round_def)

text \<open>
  C9, as the code has it. For an identifier \<open>a\<close> of letters, digits and underscores and
  a spelling \<open>b\<close> of it that differs in letter case only: the bare spellings and the
  profile URLs made of an optional lower-case \<open>http://\<close> or \<open>https://\<close>, the lower-case
  host \<open>cam4.com/\<close>, the identifier, and an optional rest that starts with \<open>/\<close> or \<open>?\<close>
  and has no line feed, all have the canonical form \<open>ToLower a\<close>. And the names that a
  roster returns are lower-cased before they are stored or compared: the keys of the two
  maps of a successful \<open>checkEndpoint\<close> are the lower-cased nicknames (CAM4) or user
  names (BongaCams) of the response, and a successful Stripchat round looks each model
  up among the lower-cased user names of the response.
\<close>

theorem Cam4CanonicalModelID_spellings:
  assumes "a \<noteq> []" "\<forall>c\<in>set a. wordChar c" "\<forall>c\<in>set b. wordChar c" "ToLower a = ToLower b"
    and "scheme = [] \<or> scheme = ''http://'' \<or> scheme = ''https://''"
    and "suffix = [] \<or> ((hd suffix = CHR ''/'' \<or> hd suffix = CHR ''?'') \<and> CHR 0x0A \<notin> set (tl suffix))"
  shows "Cam4CanonicalModelID (scheme @ ''cam4.com/'' @ a @ suffix) = ToLower a
         \<and> Cam4CanonicalModelID a = ToLower a
         \<and> Cam4CanonicalModelID b = ToLower a
         \<and> Cam4CanonicalModelID (scheme @ ''cam4.com/'' @ b @ suffix) = ToLower a
         \<and> (\<forall>parsed onlineModels images.
               Cam4_checkEndpoint (QueryResponse 200 (Some parsed)) = Inr (onlineModels, images) \<longrightarrow>
               dom onlineModels = ToLower ` Nickname ` set parsed
               \<and> dom images = ToLower ` Nickname ` set parsed)
         \<and> (\<forall>parsed onlineModels images.
               BongaCams_checkEndpoint (QueryResponse 200 (Some parsed)) = Inr (onlineModels, images) \<longrightarrow>
               dom onlineModels = ToLower ` Username ` set parsed
               \<and> dom images = ToLower ` Username ` set parsed)
         \<and> (\<forall>(clients :: 'c list) clientIdx onlineQuery models parsed elapsed.
               clientIdx < length clients
               \<and> onlineQuery (clients ! clientIdx) = (QueryResponse 200 (Some parsed), elapsed) \<longrightarrow>
               StripchatAPIChecker_round clients clientIdx onlineQuery models =
                 Inr (if clientIdx + 1 = length clients then 0 else clientIdx + 1,
                      Elapsed elapsed #
                      map (\<lambda>m. Update \<lparr>ModelID = m,
                                        Status = (if m \<in> ToLower ` set parsed then StatusOnline
                                                  else StatusOffline)\<rparr>) models))"
proof -
  have b: "b \<noteq> []" using assms(1,4) by (auto simp: ToLower_def)
  have canon: "Cam4CanonicalModelID (scheme @ ''cam4.com/'' @ a @ suffix) = ToLower a
         \<and> Cam4CanonicalModelID a = ToLower a
         \<and> Cam4CanonicalModelID b = ToLower a
         \<and> Cam4CanonicalModelID (scheme @ ''cam4.com/'' @ b @ suffix) = ToLower a"
    using cam4ModelRegex_url [OF assms(1,2,5,6)] cam4ModelRegex_url [OF b assms(3,5,6)]
      cam4ModelRegex_bare [OF assms(2)] cam4ModelRegex_bare [OF assms(3)] assms(4)
    by (simp add: Cam4CanonicalModelID_def)
  have cam4: "dom onlineModels = ToLower ` Nickname ` set parsed
               \<and> dom images = ToLower ` Nickname ` set parsed"
    if "Cam4_checkEndpoint (QueryResponse 200 (Some parsed)) = Inr (onlineModels, images)"
    for parsed onlineModels images
    using that Cam4_roster_dom [of parsed Map.empty Map.empty onlineModels images]
    by (simp add: Cam4_checkEndpoint_def)
  have bonga: "dom onlineModels = ToLower ` Username ` set parsed
               \<and> dom images = ToLower ` Username ` set parsed"
    if "BongaCams_checkEndpoint (QueryResponse 200 (Some parsed)) = Inr (onlineModels, images)"
    for parsed onlineModels images
    using that BongaCams_roster_dom [of parsed Map.empty Map.empty onlineModels images]
    by (simp add: BongaCams_checkEndpoint_def split: if_splits)
  have strip: "StripchatAPIChecker_round clients clientIdx onlineQuery models =
                 Inr (if clientIdx + 1 = length clients then 0 else clientIdx + 1,
                      Elapsed elapsed #
                      map (\<lambda>m. Update \<lparr>ModelID = m,
                                        Status = (if m \<in> ToLower ` set parsed then StatusOnline
                                                  else StatusOffline)\<rparr>) models)"
    if "clientIdx < length clients
        \<and> onlineQuery (clients ! clientIdx) = (QueryResponse 200 (Some parsed), elapsed)"
    for clients :: "'c list" and clientIdx onlineQuery models parsed elapsed
  proof -
    from that have 1: "clientIdx < length clients"
      and 2: "onlineQuery (clients ! clientIdx) = (QueryResponse 200 (Some parsed), elapsed)"
      by simp_all
    show ?thesis
      by (rule StripchatAPIChecker_round_ok [where onlineQuery = onlineQuery
            and clients = clients and clientIdx = clientIdx, OF 1 2])
  qed
  have cam4': "\<forall>parsed onlineModels images.
               Cam4_checkEndpoint (QueryResponse 200 (Some parsed)) = Inr (onlineModels, images) \<longrightarrow>
               dom onlineModels = ToLower ` Nickname ` set parsed
               \<and> dom images = ToLower ` Nickname ` set parsed"
    using cam4 by (intro allI impI)
  have bonga': "\<forall>parsed onlineModels images.
               BongaCams_checkEndpoint (QueryResponse 200 (Some parsed)) = Inr (onlineModels, images) \<longrightarrow>
               dom onlineModels = ToLower ` Username ` set parsed
               \<and> dom images = ToLower ` Username ` set parsed"
    using bonga by (intro allI impI)
  have strip': "\<forall>(clients :: 'c list) clientIdx onlineQuery models parsed elapsed.
               clientIdx < length clients
               \<and> onlineQuery (clients ! clientIdx) = (QueryResponse 200 (Some parsed), elapsed) \<longrightarrow>
               StripchatAPIChecker_round clients clientIdx onlineQuery models =
                 Inr (if clientIdx + 1 = length clients then 0 else clientIdx + 1,
                      Elapsed elapsed #
                      map (\<lambda>m. Update \<lparr>ModelID = m,
                                        Status = (if m \<in> ToLower ` set parsed then StatusOnline
                                                  else StatusOffline)\<rparr>) models)"
    using strip by (intro allI impI)
  show ?thesis
    using canon cam4' bonga' strip'
    by (elim conjE, intro conjI) assumption+
qed

theorem Cam4CanonicalModelID_spellings_witness:
  "Cam4CanonicalModelID ''https://cam4.com/Alice_1?tab=x'' = ''alice_1''
   \<and> Cam4CanonicalModelID ''Alice_1'' = ''alice_1''
   \<and> Cam4CanonicalModelID ''aLICE_1'' = ''alice_1''
   \<and> Cam4CanonicalModelID ''https://cam4.com/aLICE_1?tab=x'' = ''alice_1''"
proof -
  have 1: "''Alice_1'' \<noteq> []" by simp
  have 2: "\<forall>c\<in>set ''Alice_1''. wordChar c" by code_simp
  have 3: "\<forall>c\<in>set ''aLICE_1''. wordChar c" by code_simp
  have 4: "ToLower ''Alice_1'' = ToLower ''aLICE_1''" by code_simp
  have 5: "''https://'' = [] \<or> ''https://'' = ''http://'' \<or> ''https://'' = ''https://''" by simp
  have 6: "''?tab=x'' = [] \<or> ((hd ''?tab=x'' = CHR ''/'' \<or> hd ''?tab=x'' = CHR ''?'') \<and> CHR 0x0A \<notin> set (tl ''?tab=x''))"
    by simp
  have 7: "ToLower ''Alice_1'' = ''alice_1''" by code_simp
  note t = Cam4CanonicalModelID_spellings [OF 1 2 3 4 5 6, where 'c = string]
  note c1 = t [THEN conjunct1]
  note c2 = t [THEN conjunct2, THEN conjunct1]
  note c3 = t [THEN conjunct2, THEN conjunct2, THEN conjunct1]
  note c4 = t [THEN conjunct2, THEN conjunct2, THEN conjunct2, THEN conjunct1]
  show ?thesis
    using c1 c2 c3 c4 7 by simp
qed

text \<open>
  C9, the claim as stated fails: two inputs that differ in letter case only, one of them
  a profile URL that the pattern accepts: their canonical forms differ.
\<close>

theorem Cam4CanonicalModelID_host_case_counterexample:
  "ToLower ''Cam4.com/alice'' = ToLower ''cam4.com/alice''
   \<and> Cam4CanonicalModelID ''Cam4.com/alice'' = ''cam4.com/alice''
   \<and> Cam4CanonicalModelID ''cam4.com/alice'' = ''alice''"
  by code_simp

end
